theory Spec2Isabelle
  imports Complex_Main "HOL-Library.AList" "HOL-Library.Multiset" "HOL-Library.Char_ord" "HOL-Library.List_Lexorder"
begin

section \<open>Data model (backend/server.py, lines 73-158)\<close>

text \<open>
  The pydantic models become records. Python \<open>float\<close> fields are idealised as
  \<open>real\<close>; \<open>int\<close> fields are \<open>int\<close>. A \<open>datetime\<close> is kept in the form
  the code stores it in, the string written by \<open>isoformat()\<close>. Values that the code
  draws from its environment (a fresh \<open>uuid4\<close>, the clock, the bcrypt context, the
  HMAC of the token library) are arguments of the functions that use them.
  Field names carry a prefix because record fields share one name space.
\<close>

record user =
  u_id :: string
  u_email :: string
  u_name :: string
  u_role :: string
  u_created_at :: string

text \<open>A document of \<open>db.users\<close>: the public fields and the password hash (line 172).\<close>

record user_doc = user +
  u_password :: string

record user_create =
  uc_email :: string
  uc_password :: string
  uc_name :: string
  uc_role :: string


record product =
  p_id :: string
  p_name :: string
  p_category :: string
  p_cost :: real
  p_sale_price :: real
  p_employee_price :: real
  p_image_url :: string
  p_times_sold :: int
  p_created_at :: string

record product_update =
  pu_name :: "string option"
  pu_category :: "string option"
  pu_cost :: "real option"
  pu_sale_price :: "real option"
  pu_employee_price :: "real option"
  pu_image_url :: "string option"

record sale_product =
  product_id :: string
  product_name :: string
  quantity :: int
  unit_price :: real
  subtotal :: real


record sale =
  s_id :: string
  s_products :: "sale_product list"
  s_total :: real
  s_customer_type :: string
  s_payment_method :: string
  s_amount_paid :: real
  s_change_amount :: real
  s_cashier_id :: string
  s_cashier_name :: string
  s_date :: string

text \<open>One entry of the \<open>product_sales\<close> dictionary of the report (lines 338-343).\<close>

record product_sale =
  ps_product_id :: string
  ps_product_name :: string
  ps_quantity :: int
  ps_revenue :: real

text \<open>
  A Python \<open>dict\<close> keeps insertion order, and the report depends on it, so a
  dictionary is an association list: \<open>AList.update\<close> overwrites a present key in
  place and appends an absent one, as assignment to \<open>d[k]\<close> does.
\<close>

type_synonym 'v dict = "(string \<times> 'v) list"

record report_summary =
  total_sales :: real
  total_transactions :: nat
  top_products :: "product_sale list"
  sales_by_category :: "real dict"
  daily_sales :: "(string \<times> real) list"

text \<open>\<open>HTTPException(status_code, detail, headers)\<close>; no headers is the empty list.\<close>

datatype http_exception =
  HTTPException (status_code: nat) (detail: string) (headers: "(string \<times> string) list")

text \<open>The three collections of the database, each in insertion order.\<close>

record db =
  users :: "user_doc list"
  products :: "product list"
  sales :: "sale list"

section \<open>The document store\<close>

text \<open>
  \<open>find_one\<close> returns the first document that matches, \<open>update_one\<close> changes the
  first document that matches and no other, \<open>to_list n\<close> reads at most \<open>n\<close> documents.
\<close>

definition find_one :: "('a \<Rightarrow> bool) \<Rightarrow> 'a list \<Rightarrow> 'a option" where
  "find_one P xs = List.find P xs"

primrec update_one :: "('a \<Rightarrow> bool) \<Rightarrow> ('a \<Rightarrow> 'a) \<Rightarrow> 'a list \<Rightarrow> 'a list" where
  "update_one P f [] = []"
| "update_one P f (x # xs) = (if P x then f x # xs else x # update_one P f xs)"

definition to_list :: "nat \<Rightarrow> 'a list \<Rightarrow> 'a list" where
  "to_list n xs = take n xs"

text \<open>Python truthiness of an \<open>Optional[str]\<close>: \<open>None\<close> and the empty string are false.\<close>

fun truthy :: "string option \<Rightarrow> bool" where
  "truthy None = False"
| "truthy (Some s) = (s \<noteq> [])"

section \<open>Passwords and tokens (lines 26-71)\<close>

text \<open>
  The passlib context is a pair of functions: one call of \<open>hash\<close> and \<open>verify\<close>.
\<close>

record pwd_context =
  cc_hash :: "string \<Rightarrow> string"
  cc_verify :: "string \<Rightarrow> string \<Rightarrow> bool"


definition get_password_hash :: "pwd_context \<Rightarrow> string \<Rightarrow> string" where
  "get_password_hash ctx pw = cc_hash ctx pw"

definition ACCESS_TOKEN_EXPIRE_MINUTES :: int where
  "ACCESS_TOKEN_EXPIRE_MINUTES = 60 * 24 * 7"

text \<open>
  The claims the code puts into a token: the subject and the expiry, in seconds since
  the epoch (python-jose writes a \<open>datetime\<close> claim as whole seconds).
\<close>

record claims =
  c_sub :: "string option"
  c_exp :: "int option"

text \<open>
  A bearer token as \<open>jwt.decode\<close> sees it: either it splits into a header, a claims
  set and a signature, or it is structurally corrupt. The HS256 signature of a claims
  set under a key is the argument \<open>mac\<close>.
\<close>

datatype token = Signed claims string | Corrupt string

datatype jwt_error = JWSError | ExpiredSignatureError

definition jwt_encode :: "(string \<Rightarrow> claims \<Rightarrow> string) \<Rightarrow> claims \<Rightarrow> string \<Rightarrow> token" where
  "jwt_encode mac c key = Signed c (mac key c)"

text \<open>
  \<open>jwt.decode\<close> of python-jose: the signature is verified first, then the expiry;
  a token is expired when \<open>exp < now\<close>. Both errors are subclasses of \<open>JWTError\<close>.
\<close>

fun jwt_decode :: "(string \<Rightarrow> claims \<Rightarrow> string) \<Rightarrow> int \<Rightarrow> token \<Rightarrow> string \<Rightarrow> jwt_error + claims" where
  "jwt_decode mac now (Corrupt s) key = Inl JWSError"
| "jwt_decode mac now (Signed c sg) key =
     (if sg \<noteq> mac key c then Inl JWSError
      else case c_exp c of
        None \<Rightarrow> Inr c
      | Some e \<Rightarrow> if e < now then Inl ExpiredSignatureError else Inr c)"

text \<open>\<open>now\<close> is the clock at the call, in seconds.\<close>

definition create_access_token ::
  "(string \<Rightarrow> claims \<Rightarrow> string) \<Rightarrow> string \<Rightarrow> int \<Rightarrow> claims \<Rightarrow> token" where
  "create_access_token mac SECRET_KEY now data =
     (let expire = now + ACCESS_TOKEN_EXPIRE_MINUTES * 60;
          to_encode = data\<lparr>c_exp := Some expire\<rparr>
      in jwt_encode mac to_encode SECRET_KEY)"

definition credentials_exception :: http_exception where
  "credentials_exception =
     HTTPException 401 ''Could not validate credentials'' [(''WWW-Authenticate'', ''Bearer'')]"

definition get_current_user ::
  "(string \<Rightarrow> claims \<Rightarrow> string) \<Rightarrow> string \<Rightarrow> int \<Rightarrow> db \<Rightarrow> token \<Rightarrow> http_exception + user_doc" where
  "get_current_user mac SECRET_KEY now d tok =
     (case jwt_decode mac now tok SECRET_KEY of
        Inl err \<Rightarrow> Inl credentials_exception
      | Inr payload \<Rightarrow>
          (case c_sub payload of
             None \<Rightarrow> Inl credentials_exception
           | Some user_id \<Rightarrow>
               (case find_one (\<lambda>u. u_id u = user_id) (users d) of
                  None \<Rightarrow> Inl credentials_exception
                | Some u \<Rightarrow> Inr u)))"

definition get_admin_user :: "http_exception + user_doc \<Rightarrow> http_exception + user_doc" where
  "get_admin_user current_user =
     (case current_user of
        Inl e \<Rightarrow> Inl e
      | Inr u \<Rightarrow>
          if u_role u \<noteq> ''admin'' then Inl (HTTPException 403 ''Admin access required'' [])
          else Inr u)"

section \<open>Registration and login (lines 160-192)\<close>

text \<open>\<open>new_id\<close> and \<open>now_iso\<close> are the defaults of the \<open>User\<close> model: a fresh uuid and the clock.\<close>

definition register ::
  "pwd_context \<Rightarrow> string \<Rightarrow> string \<Rightarrow> db \<Rightarrow> user_create \<Rightarrow> (http_exception + user) \<times> db" where
  "register ctx new_id now_iso d user_data =
     (case find_one (\<lambda>u. u_email u = uc_email user_data) (users d) of
        Some existing_user \<Rightarrow> (Inl (HTTPException 400 ''Email already registered'' []), d)
      | None \<Rightarrow>
          (let hashed_password = get_password_hash ctx (uc_password user_data);
               user_obj = \<lparr>u_id = new_id, u_email = uc_email user_data,
                           u_name = uc_name user_data, u_role = uc_role user_data,
                           u_created_at = now_iso\<rparr>;
               doc = user.extend user_obj \<lparr>u_password = hashed_password\<rparr>
           in (Inr user_obj, d\<lparr>users := users d @ [doc]\<rparr>)))"



section \<open>Catalog handlers (lines 200-250)\<close>

text \<open>
  \<open>get_products\<close>: the Mongo query and the cap of \<open>to_list(1000)\<close>. The regular
  expression match of \<open>$regex\<close> with option \<open>i\<close> is the argument \<open>regex_i\<close>
  (pattern first, then the name).
\<close>

definition get_products ::
  "(string \<Rightarrow> string \<Rightarrow> bool) \<Rightarrow> db \<Rightarrow> string option \<Rightarrow> string option \<Rightarrow> product list" where
  "get_products regex_i d category search =
     to_list 1000
       (filter (\<lambda>p. (if truthy category then p_category p = the category else True) \<and>
                     (if truthy search then regex_i (the search) (p_name p) else True))
          (products d))"

text \<open>
  \<open>update_data\<close> (line 236) holds the fields of the request that are not \<open>None\<close>;
  \<open>$set\<close> writes exactly those into the document.
\<close>

definition update_data_empty :: "product_update \<Rightarrow> bool" where
  "update_data_empty u =
     (pu_name u = None \<and> pu_category u = None \<and> pu_cost u = None \<and>
      pu_sale_price u = None \<and> pu_employee_price u = None \<and> pu_image_url u = None)"

definition set_fields :: "product_update \<Rightarrow> product \<Rightarrow> product" where
  "set_fields u p =
     p\<lparr>p_name := (case pu_name u of None \<Rightarrow> p_name p | Some v \<Rightarrow> v),
       p_category := (case pu_category u of None \<Rightarrow> p_category p | Some v \<Rightarrow> v),
       p_cost := (case pu_cost u of None \<Rightarrow> p_cost p | Some v \<Rightarrow> v),
       p_sale_price := (case pu_sale_price u of None \<Rightarrow> p_sale_price p | Some v \<Rightarrow> v),
       p_employee_price := (case pu_employee_price u of None \<Rightarrow> p_employee_price p | Some v \<Rightarrow> v),
       p_image_url := (case pu_image_url u of None \<Rightarrow> p_image_url p | Some v \<Rightarrow> v)\<rparr>"

text \<open>
  The handler runs behind \<open>get_admin_user\<close>. Reading \<open>updated["created_at"]\<close> of a
  document that is not there would raise \<open>TypeError\<close>, which the framework answers
  with status 500.
\<close>

definition update_product ::
  "db \<Rightarrow> string \<Rightarrow> product_update \<Rightarrow> (http_exception + product) \<times> db" where
  "update_product d pid upd =
     (case find_one (\<lambda>p. p_id p = pid) (products d) of
        None \<Rightarrow> (Inl (HTTPException 404 ''Product not found'' []), d)
      | Some existing \<Rightarrow>
          (let d' = (if update_data_empty upd then d
                     else d\<lparr>products := update_one (\<lambda>p. p_id p = pid) (set_fields upd) (products d)\<rparr>)
           in case find_one (\<lambda>p. p_id p = pid) (products d') of
                None \<Rightarrow> (Inl (HTTPException 500 ''Internal Server Error'' []), d')
              | Some updated \<Rightarrow> (Inr updated, d')))"

section \<open>Sales (lines 252-290)\<close>







text \<open>
  The date filter of \<open>get_sales\<close> and \<open>get_report_summary\<close>: the stored ISO string
  is compared with the bounds as strings.
\<close>

record date_query =
  q_gte :: "string option"
  q_lte :: "string option"

definition build_query :: "string option \<Rightarrow> string option \<Rightarrow> date_query" where
  "build_query start_date end_date =
     \<lparr>q_gte = (if truthy start_date then start_date else None),
      q_lte = (if truthy end_date then end_date else None)\<rparr>"

definition matches :: "date_query \<Rightarrow> sale \<Rightarrow> bool" where
  "matches q s =
     ((case q_gte q of None \<Rightarrow> True | Some a \<Rightarrow> a \<le> s_date s) \<and>
      (case q_lte q of None \<Rightarrow> True | Some b \<Rightarrow> s_date s \<le> b))"

text \<open>
  \<open>sorted(xs, key=f, reverse=True)\<close> and Mongo's \<open>sort(field, -1)\<close>: descending,
  elements with equal keys stay in their order.
\<close>

definition sorted_reverse :: "('a \<Rightarrow> 'k::linorder) \<Rightarrow> 'a list \<Rightarrow> 'a list" where
  "sorted_reverse f xs = rev (sort_key f (rev xs))"

definition get_sales :: "db \<Rightarrow> string option \<Rightarrow> string option \<Rightarrow> sale list" where
  "get_sales d start_date end_date =
     to_list 1000
       (sorted_reverse s_date (filter (matches (build_query start_date end_date)) (sales d)))"

section \<open>The report (lines 292-363)\<close>

text \<open>
  The period defaults of the lower bound come from the clock: \<open>clk_midnight\<close> is
  \<open>now.replace(hour=0, minute=0, second=0, microsecond=0).isoformat()\<close> and
  \<open>clk_days_ago n\<close> is \<open>(now - timedelta(days=n)).isoformat()\<close>.
\<close>

record clock =
  clk_midnight :: string
  clk_days_ago :: "nat \<Rightarrow> string"

definition default_start :: "clock \<Rightarrow> string \<Rightarrow> string option \<Rightarrow> string option" where
  "default_start clk period start_date =
     (if \<not> truthy start_date then
        (if period = ''daily'' then Some (clk_midnight clk)
         else if period = ''weekly'' then Some (clk_days_ago clk 7)
         else if period = ''monthly'' then Some (clk_days_ago clk 30)
         else if period = ''yearly'' then Some (clk_days_ago clk 365)
         else start_date)
      else start_date)"

text \<open>
  \<open>datetime.fromisoformat(s).strftime("%Y-%m-%d")\<close> on a string that \<open>isoformat()\<close>
  wrote (\<open>YYYY-MM-DDTHH:MM:SS...\<close>, the only strings \<open>create_sale\<close> stores): the date
  part, which is the first ten characters.
\<close>

definition day_key :: "string \<Rightarrow> string" where
  "day_key stamp = take 10 stamp"

text \<open>\<open>d.get(k, dflt)\<close>.\<close>

definition dict_get :: "'v dict \<Rightarrow> string \<Rightarrow> 'v \<Rightarrow> 'v" where
  "dict_get d k dflt = (case map_of d k of None \<Rightarrow> dflt | Some v \<Rightarrow> v)"

text \<open>The body of the loop over the line items of a sale (lines 335-345).\<close>

definition add_item :: "product_sale dict \<Rightarrow> sale_product \<Rightarrow> product_sale dict" where
  "add_item product_sales item =
     (let pid = product_id item;
          ps1 = (if map_of product_sales pid = None
                 then AList.update pid
                        \<lparr>ps_product_id = pid, ps_product_name = product_name item,
                         ps_quantity = 0, ps_revenue = 0\<rparr> product_sales
                 else product_sales)
      in AList.map_entry pid
           (\<lambda>e. e\<lparr>ps_quantity := ps_quantity e + quantity item,
                   ps_revenue := ps_revenue e + subtotal item\<rparr>) ps1)"

text \<open>The body of the loop over the sales (lines 328-345), on the pair
  \<open>(daily_totals, product_sales)\<close>.\<close>

definition add_sale :: "real dict \<times> product_sale dict \<Rightarrow> sale \<Rightarrow> real dict \<times> product_sale dict" where
  "add_sale acc sale =
     (let day = day_key (s_date sale)
      in (AList.update day (dict_get (fst acc) day 0 + s_total sale) (fst acc),
          foldl add_item (snd acc) (s_products sale)))"

text \<open>The body of the loop over \<open>product_sales.items()\<close> (lines 347-351).\<close>

definition add_category :: "product list \<Rightarrow> real dict \<Rightarrow> string \<times> product_sale \<Rightarrow> real dict" where
  "add_category catalog category_sales entry =
     (case find_one (\<lambda>p. p_id p = fst entry) catalog of
        None \<Rightarrow> category_sales
      | Some pr \<Rightarrow>
          AList.update (p_category pr)
            (dict_get category_sales (p_category pr) 0 + ps_revenue (snd entry)) category_sales)"

text \<open>
  Lines 321-363, on the sales the query returned. \<open>sorted(daily_totals.items())\<close>
  compares pairs whose first components are distinct keys, so it sorts by the key.
\<close>

definition summarise :: "product list \<Rightarrow> sale list \<Rightarrow> report_summary" where
  "summarise catalog sls =
     (let acc = foldl add_sale ([], []) sls;
          daily_totals = fst acc;
          product_sales = snd acc;
          category_sales = foldl (add_category catalog) [] product_sales
      in \<lparr>total_sales = foldl (+) 0 (map s_total sls),
          total_transactions = length sls,
          top_products = take 10 (sorted_reverse ps_quantity (map snd product_sales)),
          sales_by_category = category_sales,
          daily_sales = sort_key fst daily_totals\<rparr>)"

definition report_sales :: "clock \<Rightarrow> db \<Rightarrow> string \<Rightarrow> string option \<Rightarrow> string option \<Rightarrow> sale list" where
  "report_sales clk d period start_date end_date =
     to_list 10000
       (filter (matches (build_query (default_start clk period start_date) end_date)) (sales d))"

definition get_report_summary ::
  "clock \<Rightarrow> db \<Rightarrow> string \<Rightarrow> string option \<Rightarrow> string option \<Rightarrow> report_summary" where
  "get_report_summary clk d period start_date end_date =
     summarise (products d) (report_sales clk d period start_date end_date)"

section \<open>Seeding (lines 373-533)\<close>

text \<open>A row of the seed tables: name, cost, sale price, employee price, image.\<close>

type_synonym seed_row = "string \<times> real \<times> real \<times> real \<times> string"

definition cold_drinks :: "seed_row list" where
  "cold_drinks = [
    (''Iced Coffee'', 1.50, 3.50, 2.50, ''https://images.unsplash.com/photo-1686575669781-74e03080541b?w=400''),
    (''Iced Latte'', 1.80, 4.00, 3.00, ''https://images.unsplash.com/photo-1517487881594-2787fef5ebf7?w=400''),
    (''Cold Brew'', 1.60, 3.75, 2.75, ''https://images.unsplash.com/photo-1461023058943-07fcbe16d735?w=400''),
    (''Iced Mocha'', 2.00, 4.50, 3.25, ''https://images.unsplash.com/photo-1542843137-8791a6904d14?w=400''),
    (''Iced Caramel Macchiato'', 2.20, 4.75, 3.50, ''https://images.unsplash.com/photo-1599578675144-ba7ef5e19186?w=400''),
    (''Iced Vanilla Latte'', 1.90, 4.25, 3.00, ''https://images.unsplash.com/photo-1602882480284-ad6a30ba4f07?w=400''),
    (''Strawberry Smoothie'', 2.50, 5.50, 4.00, ''https://images.unsplash.com/photo-1622597468620-656aa1f981ea?w=400''),
    (''Mango Smoothie'', 2.50, 5.50, 4.00, ''https://images.unsplash.com/photo-1600271886742-f049cd451bba?w=400''),
    (''Berry Blast Smoothie'', 2.70, 5.75, 4.25, ''https://images.unsplash.com/photo-1505252585461-04db1eb84625?w=400''),
    (''Green Detox Smoothie'', 2.80, 6.00, 4.50, ''https://images.unsplash.com/photo-1610970881699-44a5587cabec?w=400''),
    (''Lemonade'', 1.00, 2.50, 1.75, ''https://images.unsplash.com/photo-1523677011781-c91d1bbe4d1e?w=400''),
    (''Orange Juice'', 1.20, 3.00, 2.00, ''https://images.unsplash.com/photo-1600271886742-f049cd451bba?w=400''),
    (''Apple Juice'', 1.20, 3.00, 2.00, ''https://images.unsplash.com/photo-1609501676725-7186f017a4b7?w=400''),
    (''Iced Tea'', 0.80, 2.25, 1.50, ''https://images.unsplash.com/photo-1556679343-c7306c1976bc?w=400''),
    (''Peach Iced Tea'', 1.00, 2.75, 2.00, ''https://images.unsplash.com/photo-1499638309848-e9968540da83?w=400''),
    (''Mint Lemonade'', 1.30, 3.25, 2.25, ''https://images.unsplash.com/photo-1571091718767-18b5b1457add?w=400''),
    (''Coconut Water'', 1.50, 3.50, 2.50, ''https://images.unsplash.com/photo-1605367587000-15a5d37715e4?w=400''),
    (''Watermelon Juice'', 1.40, 3.25, 2.25, ''https://images.unsplash.com/photo-1587049633312-d628ae50a8ae?w=400''),
    (''Pineapple Juice'', 1.30, 3.00, 2.00, ''https://images.unsplash.com/photo-1565299543923-37dd37887442?w=400''),
    (''Frappuccino'', 2.40, 5.25, 3.75, ''https://images.unsplash.com/photo-1572490122747-3968b75cc699?w=400''),
    (''Chocolate Shake'', 2.30, 5.00, 3.50, ''https://images.unsplash.com/photo-1542574271-7f3b92e6c821?w=400''),
    (''Vanilla Shake'', 2.20, 4.75, 3.25, ''https://images.unsplash.com/photo-1579954115545-a95591f28bfc?w=400''),
    (''Strawberry Shake'', 2.30, 5.00, 3.50, ''https://images.unsplash.com/photo-1623428454614-abaf00244e52?w=400''),
    (''Oreo Shake'', 2.50, 5.50, 4.00, ''https://images.unsplash.com/photo-1581006852262-e4307cf6283a?w=400''),
    (''Bubble Tea'', 2.00, 4.50, 3.25, ''https://images.unsplash.com/photo-1525385133512-2f3bdd039054?w=400'')]"

definition hot_drinks :: "seed_row list" where
  "hot_drinks = [
    (''Hot Coffee'', 1.00, 2.50, 1.75, ''https://images.unsplash.com/photo-1509042239860-f550ce710b93?w=400''),
    (''Espresso'', 0.80, 2.00, 1.50, ''https://images.unsplash.com/photo-1510591509098-f4fdc6d0ff04?w=400''),
    (''Cappuccino'', 1.40, 3.50, 2.50, ''https://images.unsplash.com/photo-1572442388796-11668a67e53d?w=400''),
    (''Latte'', 1.50, 3.75, 2.75, ''https://images.unsplash.com/photo-1691723247105-57e32577dc72?w=400''),
    (''Americano'', 1.20, 3.00, 2.00, ''https://images.unsplash.com/photo-1514432324607-a09d9b4aefdd?w=400''),
    (''Mocha'', 1.80, 4.25, 3.00, ''https://images.unsplash.com/photo-1578374173704-966697ae5e8c?w=400''),
    (''Macchiato'', 1.60, 3.75, 2.75, ''https://images.unsplash.com/photo-1557006021-b85faa2bc5e2?w=400''),
    (''Hot Chocolate'', 1.50, 3.50, 2.50, ''https://images.unsplash.com/photo-1542990253-0d0f5be5f0ed?w=400''),
    (''Chai Latte'', 1.60, 3.75, 2.75, ''https://images.unsplash.com/photo-1578374173704-966697ae5e8c?w=400''),
    (''Matcha Latte'', 2.00, 4.50, 3.25, ''https://images.unsplash.com/photo-1536013080062-84d3e4fcf21f?w=400''),
    (''Green Tea'', 0.60, 2.00, 1.50, ''https://images.unsplash.com/photo-1564890369478-c89ca6d9cde9?w=400''),
    (''Peppermint Tea'', 0.70, 2.25, 1.75, ''https://images.unsplash.com/photo-1597318110274-1f1335e0a83d?w=400'')]"

definition snacks :: "seed_row list" where
  "snacks = [
    (''Croissant'', 1.20, 3.00, 2.00, ''https://images.unsplash.com/photo-1709798289100-7b46217e0325?w=400''),
    (''Chocolate Croissant'', 1.40, 3.50, 2.50, ''https://images.unsplash.com/photo-1632636575859-45d1950fdc78?w=400''),
    (''Blueberry Muffin'', 1.00, 2.75, 2.00, ''https://images.unsplash.com/photo-1607958996333-41aef7caefaa?w=400''),
    (''Chocolate Chip Muffin'', 1.00, 2.75, 2.00, ''https://images.pexels.com/photos/3650437/pexels-photo-3650437.jpeg?w=400''),
    (''Cinnamon Roll'', 1.30, 3.50, 2.50, ''https://images.unsplash.com/photo-1509365465985-25d11c17e812?w=400''),
    (''Bagel'', 0.80, 2.50, 1.75, ''https://images.unsplash.com/photo-1549931319-a545dcf3bc3c?w=400''),
    (''Sandwich'', 2.50, 6.00, 4.50, ''https://images.unsplash.com/photo-1528735602780-2552fd46c7af?w=400''),
    (''Cookies'', 0.60, 1.75, 1.25, ''https://images.unsplash.com/photo-1499636136210-6f4ee915583e?w=400''),
    (''Brownie'', 1.20, 3.00, 2.00, ''https://images.unsplash.com/photo-1607920591413-4ec007e70023?w=400''),
    (''Cheesecake'', 2.00, 5.00, 3.50, ''https://images.unsplash.com/photo-1524351199678-941a58a3df50?w=400''),
    (''Donut'', 0.80, 2.00, 1.50, ''https://images.unsplash.com/photo-1551024506-0bccd828d307?w=400'')]"

definition extras :: "seed_row list" where
  "extras = [
    (''Leche Extra'', 0.30, 0.75, 0.50, ''https://images.unsplash.com/photo-1550583724-b2692b85b150?w=400''),
    (''Shot Espresso'', 0.50, 1.00, 0.75, ''https://images.unsplash.com/photo-1514432324607-a09d9b4aefdd?w=400''),
    (''Crema Batida'', 0.40, 1.00, 0.75, ''https://images.unsplash.com/photo-1625772452859-1c03d5bf1137?w=400''),
    (''Jarabe Vainilla'', 0.30, 0.75, 0.50, ''https://images.unsplash.com/photo-1481391032119-d89fee407e44?w=400''),
    (''Jarabe Caramelo'', 0.30, 0.75, 0.50, ''https://images.unsplash.com/photo-1481391032119-d89fee407e44?w=400''),
    (''Jarabe Avellana'', 0.30, 0.75, 0.50, ''https://images.unsplash.com/photo-1481391032119-d89fee407e44?w=400''),
    (''Chocolate Extra'', 0.40, 1.00, 0.75, ''https://images.unsplash.com/photo-1511381939415-e44015466834?w=400''),
    (''Leche de Almendra'', 0.50, 1.25, 1.00, ''https://images.unsplash.com/photo-1550583724-b2692b85b150?w=400''),
    (''Leche de Avena'', 0.50, 1.25, 1.00, ''https://images.unsplash.com/photo-1600788907416-456578634209?w=400''),
    (''Topping Oreo'', 0.50, 1.25, 1.00, ''https://images.unsplash.com/photo-1606313564200-e75d5e30476c?w=400'')]"

text \<open>
  The four loops of lines 450-504. \<open>uuid i\<close> is the \<open>i\<close>-th identifier drawn and
  \<open>now i\<close> the clock at the \<open>i\<close>-th model built, as ISO string.
\<close>

definition seed_product :: "string \<Rightarrow> string \<Rightarrow> string \<Rightarrow> seed_row \<Rightarrow> product" where
  "seed_product category new_id now_iso row =
     (case row of (nm, cost, sale_price, employee_price, image_url) \<Rightarrow>
        \<lparr>p_id = new_id, p_name = nm, p_category = category, p_cost = cost,
         p_sale_price = sale_price, p_employee_price = employee_price,
         p_image_url = image_url, p_times_sold = 0, p_created_at = now_iso\<rparr>)"

definition seed_rows :: "(string \<times> seed_row) list" where
  "seed_rows =
     map (Pair ''cold_drinks'') cold_drinks @ map (Pair ''hot_drinks'') hot_drinks @
     map (Pair ''snacks'') snacks @ map (Pair ''extras'') extras"

definition products_to_insert :: "(nat \<Rightarrow> string) \<Rightarrow> (nat \<Rightarrow> string) \<Rightarrow> product list" where
  "products_to_insert uuid now =
     map (\<lambda>(i, category, row). seed_product category (uuid i) (now i) row)
       (enumerate 0 seed_rows)"

record seed_result =
  sr_message :: string
  sr_products_count :: "nat option"
  sr_users_created :: "nat option"

definition seed_data ::
  "pwd_context \<Rightarrow> (nat \<Rightarrow> string) \<Rightarrow> (nat \<Rightarrow> string) \<Rightarrow> db \<Rightarrow> seed_result \<times> db" where
  "seed_data ctx uuid now d =
     (if length (products d) > 0
      then (\<lparr>sr_message = ''Database already seeded'', sr_products_count = None,
              sr_users_created = None\<rparr>, d)
      else
        (let ps = products_to_insert uuid now;
             n = length ps;
             admin_doc = \<lparr>u_id = uuid n, u_email = ''admin@pos.com'', u_name = ''Admin User'',
                          u_role = ''admin'', u_created_at = now n,
                          u_password = get_password_hash ctx ''admin123''\<rparr>;
             cashier_doc = \<lparr>u_id = uuid (n + 1), u_email = ''cashier@pos.com'',
                            u_name = ''Cashier User'', u_role = ''cashier'',
                            u_created_at = now (n + 1),
                            u_password = get_password_hash ctx ''cashier123''\<rparr>
         in (\<lparr>sr_message = ''Database seeded successfully'', sr_products_count = Some n,
               sr_users_created = Some 2\<rparr>,
             d\<lparr>products := products d @ ps, users := users d @ [admin_doc, cashier_doc]\<rparr>)))"

section \<open>Notions used in the statements and proofs\<close>



text \<open>
  The report in the words of its description. \<open>line_items\<close> are the line items of the
  sales in order; \<open>spec_first_seen\<close> keeps the first occurrence of every element;
  \<open>spec_aggregate\<close> is the aggregate of one product identifier: the name of the first
  line item that references it, the sum of the quantities and the sum of the subtotals
  of all line items that reference it; \<open>spec_per_product\<close> lists the aggregates in
  first-seen order.
\<close>

definition line_items :: "sale list \<Rightarrow> sale_product list" where
  "line_items sls = concat (map s_products sls)"

definition spec_first_seen :: "'a list \<Rightarrow> 'a list" where
  "spec_first_seen xs = rev (remdups (rev xs))"

definition spec_aggregate :: "sale_product list \<Rightarrow> string \<Rightarrow> product_sale" where
  "spec_aggregate items pid =
     \<lparr>ps_product_id = pid,
      ps_product_name =
        (case filter (\<lambda>i. product_id i = pid) items of [] \<Rightarrow> [] | i # rest \<Rightarrow> product_name i),
      ps_quantity = sum_list (map quantity (filter (\<lambda>i. product_id i = pid) items)),
      ps_revenue = sum_list (map subtotal (filter (\<lambda>i. product_id i = pid) items))\<rparr>"

definition spec_per_product :: "sale list \<Rightarrow> product_sale list" where
  "spec_per_product sls =
     map (spec_aggregate (line_items sls)) (spec_first_seen (map product_id (line_items sls)))"



text \<open>The two steps of the loop body on an entry of \<open>product_sales\<close>: the entry made
  for a product seen for the first time, and the addition of a line item to an entry.\<close>

definition fresh_entry :: "sale_product \<Rightarrow> product_sale" where
  "fresh_entry item = \<lparr>ps_product_id = product_id item, ps_product_name = product_name item,
                       ps_quantity = 0, ps_revenue = 0\<rparr>"

definition bump :: "sale_product \<Rightarrow> product_sale \<Rightarrow> product_sale" where
  "bump item e = e\<lparr>ps_quantity := ps_quantity e + quantity item,
                   ps_revenue := ps_revenue e + subtotal item\<rparr>"

section \<open>Example data\<close>

text \<open>Concrete inputs on which the theorems below are instantiated.\<close>

definition latte :: product where
  "latte = \<lparr>p_id = ''p1'', p_name = ''Latte'', p_category = ''hot_drinks'', p_cost = 1.5,
            p_sale_price = 3.75, p_employee_price = 2.75, p_image_url = ''latte.png'',
            p_times_sold = 4, p_created_at = ''2024-05-01T10:00:00+00:00''\<rparr>"

definition only_sale_price :: product_update where
  "only_sale_price = \<lparr>pu_name = None, pu_category = None, pu_cost = None,
     pu_sale_price = Some 9.99, pu_employee_price = None, pu_image_url = None\<rparr>"


definition ana :: user_doc where
  "ana = \<lparr>u_id = ''u1'', u_email = ''ana@pos.com'', u_name = ''Ana'', u_role = ''cashier'',
           u_created_at = ''2024-05-01T08:00:00+00:00'', u_password = ''$2b$secret''\<rparr>"

definition db1 :: db where
  "db1 = \<lparr>users = [ana], products = [], sales = []\<rparr>"

text \<open>A stand-in for HS256: the key followed by the subject.\<close>

definition demo_mac :: "string \<Rightarrow> claims \<Rightarrow> string" where
  "demo_mac key c = key @ ''|'' @ (case c_sub c of None \<Rightarrow> [] | Some s \<Rightarrow> s)"


definition db0 :: db where
  "db0 = \<lparr>users = [], products = [], sales = []\<rparr>"






definition cash_sale :: sale where
  "cash_sale = \<lparr>s_id = ''s0'', s_products = [], s_total = 1, s_customer_type = ''customer'',
                 s_payment_method = ''cash'', s_amount_paid = 1, s_change_amount = 0,
                 s_cashier_id = ''u1'', s_cashier_name = ''Ana'',
                 s_date = ''2024-05-02T09:00:00+00:00''\<rparr>"

definition big_db :: db where
  "big_db = \<lparr>users = [], products = [], sales = replicate 10001 cash_sale\<rparr>"

definition no_clock :: clock where
  "no_clock = \<lparr>clk_midnight = ''2024-05-02T00:00:00+00:00'',
                clk_days_ago = (\<lambda>n. ''2024-01-01T00:00:00+00:00'')\<rparr>"

definition admin_create :: user_create where
  "admin_create = \<lparr>uc_email = ''admin@pos.com'', uc_password = ''hunter2'', uc_name = ''Eve'',
                    uc_role = ''cashier''\<rparr>"

definition party_items :: "sale_product list" where
  "party_items =
     map (\<lambda>(pid, q). \<lparr>product_id = pid, product_name = pid, quantity = q, unit_price = 1,
                        subtotal = of_int q\<rparr>)
       [(''a'', 1), (''b'', 5), (''c'', 3), (''d'', 5), (''e'', 2), (''f'', 9), (''g'', 1),
        (''h'', 1), (''i'', 7), (''j'', 5), (''k'', 4)]"

definition party_db :: db where
  "party_db = \<lparr>users = [], products = [],
     sales = [\<lparr>s_id = ''s7'', s_products = party_items, s_total = 43,
               s_customer_type = ''customer'', s_payment_method = ''cash'', s_amount_paid = 50,
               s_change_amount = 7, s_cashier_id = ''u1'', s_cashier_name = ''Ana'',
               s_date = ''2024-05-02T09:00:00+00:00''\<rparr>]\<rparr>"











section \<open>Facts about the document store\<close>

lemma find_one_update_one:
  "(\<And>x. P (f x) = P x) \<Longrightarrow> find_one P (update_one P f xs) = map_option f (find_one P xs)"
  by (induction xs) (auto simp: find_one_def)

lemma update_one_none: "find_one P xs = None \<Longrightarrow> update_one P f xs = xs"
  by (induction xs) (auto simp: find_one_def split: if_splits)

lemma update_one_const:
  "find_one P xs = Some x \<Longrightarrow> update_one P f xs = update_one P (\<lambda>_. f x) xs"
  by (induction xs) (auto simp: find_one_def split: if_splits)

lemma update_one_same: "find_one P xs = Some x \<Longrightarrow> update_one P (\<lambda>_. x) xs = xs"
  by (induction xs) (auto simp: find_one_def split: if_splits)

lemma find_one_Some_P: "find_one P xs = Some x \<Longrightarrow> P x \<and> x \<in> set xs"
  by (induction xs) (auto simp: find_one_def split: if_splits)



lemma find_one_None_iff: "find_one P xs = None \<longleftrightarrow> (\<forall>x\<in>set xs. \<not> P x)"
  by (auto simp: find_one_def find_None_iff)

section \<open>Facts about sums and sorting\<close>

lemma foldl_plus_sum_list: "foldl (+) a xs = (a::real) + sum_list xs"
  by (induction xs arbitrary: a) (simp_all add: add.assoc)

lemma length_sorted_reverse: "length (sorted_reverse f xs) = length xs"
  by (simp add: sorted_reverse_def)

section \<open>The report: the loops compute the aggregates\<close>

lemma spec_first_seen_snoc:
  "spec_first_seen (xs @ [x]) = (if x \<in> set xs then spec_first_seen xs else spec_first_seen xs @ [x])"
  by (simp add: spec_first_seen_def)

lemma set_spec_first_seen [simp]: "set (spec_first_seen xs) = set xs"
  by (simp add: spec_first_seen_def)

lemma distinct_spec_first_seen [simp]: "distinct (spec_first_seen xs)"
  by (simp add: spec_first_seen_def)

lemma length_spec_first_seen: "length (spec_first_seen xs) = length (remdups xs)"
  by (metis spec_first_seen_def length_rev length_remdups_card_conv set_rev)

lemma map_of_tabulate:
  "map_of (map (\<lambda>k. (k, g k)) ks) k = (if k \<in> set ks then Some (g k) else None)"
  by (induction ks) auto

lemma update_tabulate_fresh:
  "k \<notin> set ks \<Longrightarrow> AList.update k v (map (\<lambda>k. (k, g k)) ks) = map (\<lambda>k. (k, g k)) ks @ [(k, v)]"
  by (induction ks) auto

lemma map_entry_tabulate:
  "distinct ks \<Longrightarrow>
   AList.map_entry k f (map (\<lambda>j. (j, g j)) ks) = map (\<lambda>j. (j, if j = k then f (g j) else g j)) ks"
  by (induction ks) auto

lemma map_entry_snoc_fresh:
  "k \<notin> fst ` set al \<Longrightarrow> AList.map_entry k f (al @ [(k, v)]) = al @ [(k, f v)]"
  by (induction al) auto

lemma add_item_alt:
  "add_item al item =
     AList.map_entry (product_id item) (bump item)
       (if map_of al (product_id item) = None
        then AList.update (product_id item) (fresh_entry item) al else al)"
  by (simp add: add_item_def Let_def fresh_entry_def bump_def [abs_def])

lemma spec_aggregate_snoc_other:
  "pid \<noteq> product_id x \<Longrightarrow> spec_aggregate (items @ [x]) pid = spec_aggregate items pid"
  by (simp add: spec_aggregate_def)

lemma spec_aggregate_snoc_seen:
  "product_id x \<in> product_id ` set items \<Longrightarrow>
   spec_aggregate (items @ [x]) (product_id x) = bump x (spec_aggregate items (product_id x))"
proof -
  assume "product_id x \<in> product_id ` set items"
  then have "filter (\<lambda>i. product_id i = product_id x) items \<noteq> []"
    by (auto simp: filter_empty_conv)
  then obtain i rest where "filter (\<lambda>i. product_id i = product_id x) items = i # rest"
    by (cases "filter (\<lambda>i. product_id i = product_id x) items") auto
  then show ?thesis
    by (simp add: spec_aggregate_def bump_def)
qed

lemma spec_aggregate_snoc_fresh:
  "product_id x \<notin> product_id ` set items \<Longrightarrow>
   spec_aggregate (items @ [x]) (product_id x) = bump x (fresh_entry x)"
proof -
  assume "product_id x \<notin> product_id ` set items"
  then have "\<forall>i\<in>set items. product_id i \<noteq> product_id x"
    by (metis imageI)
  then have "filter (\<lambda>i. product_id i = product_id x) items = []"
    by (simp add: filter_empty_conv)
  then show ?thesis
    by (simp add: spec_aggregate_def bump_def fresh_entry_def)
qed

lemma foldl_add_item_spec:
  "foldl add_item [] items =
     map (\<lambda>pid. (pid, spec_aggregate items pid)) (spec_first_seen (map product_id items))"
proof (induction items rule: rev_induct)
  case Nil
  show ?case by (simp add: spec_first_seen_def)
next
  case (snoc x items)
  let ?K = "spec_first_seen (map product_id items)"
  let ?al = "map (\<lambda>pid. (pid, spec_aggregate items pid)) ?K"
  have step: "foldl add_item [] (items @ [x]) = add_item ?al x"
    by (simp add: snoc.IH)
  show ?case
  proof (cases "product_id x \<in> product_id ` set items")
    case True
    then have look: "map_of ?al (product_id x) = Some (spec_aggregate items (product_id x))"
      by (simp add: map_of_tabulate)
    have "add_item ?al x =
        map (\<lambda>j. (j, if j = product_id x then bump x (spec_aggregate items j)
                       else spec_aggregate items j)) ?K"
      using look by (simp add: add_item_alt map_entry_tabulate)
    also have "\<dots> = map (\<lambda>j. (j, spec_aggregate (items @ [x]) j)) ?K"
      using True by (auto simp: spec_aggregate_snoc_other spec_aggregate_snoc_seen)
    finally have a: "add_item ?al x = map (\<lambda>j. (j, spec_aggregate (items @ [x]) j)) ?K" .
    have k: "spec_first_seen (map product_id (items @ [x])) = ?K"
      using True by (simp add: spec_first_seen_snoc)
    show ?thesis unfolding step a k ..
  next
    case False
    then have look: "map_of ?al (product_id x) = None"
      by (simp add: map_of_tabulate)
    have fresh: "product_id x \<notin> set ?K" using False by simp
    have keys: "product_id x \<notin> fst ` set ?al" using False by (auto simp: image_iff)
    have a: "add_item ?al x = ?al @ [(product_id x, bump x (fresh_entry x))]"
      using look by (simp add: add_item_alt update_tabulate_fresh [OF fresh]
          map_entry_snoc_fresh [OF keys])
    have "j \<noteq> product_id x" if "j \<in> set ?K" for j
      using that fresh by metis
    then have "\<And>j. j \<in> set ?K \<Longrightarrow> spec_aggregate (items @ [x]) j = spec_aggregate items j"
      by (simp add: spec_aggregate_snoc_other)
    then have b: "?al = map (\<lambda>j. (j, spec_aggregate (items @ [x]) j)) ?K"
      by simp
    have c: "bump x (fresh_entry x) = spec_aggregate (items @ [x]) (product_id x)"
      using False by (simp add: spec_aggregate_snoc_fresh)
    have k: "spec_first_seen (map product_id (items @ [x])) = ?K @ [product_id x]"
      using False by (simp add: spec_first_seen_snoc)
    have "add_item ?al x =
        map (\<lambda>j. (j, spec_aggregate (items @ [x]) j)) (?K @ [product_id x])"
      unfolding a c using b by simp
    then show ?thesis unfolding step k .
  qed
qed

lemma snd_foldl_add_sale:
  "snd (foldl add_sale acc sls) = foldl add_item (snd acc) (line_items sls)"
  by (induction sls arbitrary: acc) (simp_all add: line_items_def add_sale_def Let_def)

lemma product_sales_spec:
  "map snd (snd (foldl add_sale ([], []) sls)) = spec_per_product sls"
  by (simp add: snd_foldl_add_sale foldl_add_item_spec spec_per_product_def comp_def)

lemma top_products_summarise:
  "top_products (summarise catalog sls) = take 10 (sorted_reverse ps_quantity (spec_per_product sls))"
  by (simp add: summarise_def Let_def product_sales_spec)

lemma sorted_reverse_descending: "sorted (rev (map f (sorted_reverse f xs)))"
  by (simp add: sorted_reverse_def rev_map)

lemma sorted_reverse_stable:
  "filter (\<lambda>y. f y = k) (sorted_reverse f xs) = filter (\<lambda>y. f y = k) xs"
  by (simp add: sorted_reverse_def rev_filter [symmetric] sort_key_stable)

lemma mset_sorted_reverse: "mset (sorted_reverse f xs) = mset xs"
  by (simp add: sorted_reverse_def)








lemma length_spec_per_product:
  "length (spec_per_product sls) = card (product_id ` set (line_items sls))"
  by (simp add: spec_per_product_def length_spec_first_seen length_remdups_card_conv)












section \<open>The report on two sales of drinks\<close>






section \<open>The ten best-selling products\<close>

lemma party_report_sales: "report_sales no_clock party_db ''all'' None None = sales party_db"
  by (simp add: report_sales_def default_start_def build_query_def matches_def to_list_def party_db_def)

lemma party_per_product:
  "map (\<lambda>a. (ps_product_id a, ps_quantity a)) (spec_per_product (sales party_db)) =
     [(''a'', 1), (''b'', 5), (''c'', 3), (''d'', 5), (''e'', 2), (''f'', 9), (''g'', 1),
      (''h'', 1), (''i'', 7), (''j'', 5), (''k'', 4)]"
  by (simp add: spec_per_product_def line_items_def party_db_def party_items_def
      spec_first_seen_def spec_aggregate_def)

lemma party_top:
  "map (\<lambda>a. (ps_product_id a, ps_quantity a))
     (take 10 (sorted_reverse ps_quantity (spec_per_product (sales party_db)))) =
     [(''f'', 9), (''i'', 7), (''b'', 5), (''d'', 5), (''j'', 5), (''k'', 4), (''c'', 3),
      (''e'', 2), (''a'', 1), (''g'', 1)]"
  by (simp add: spec_per_product_def line_items_def party_db_def party_items_def
      spec_first_seen_def spec_aggregate_def sorted_reverse_def)

text \<open>
  C2. \<open>top_products\<close> of the report is the first ten entries of a list \<open>ranked\<close>
  that is a permutation of the per-product aggregates, is in descending order of
  quantity, and keeps aggregates of equal quantity in their first-seen order. It has
  ten entries as soon as ten or more distinct products were sold, and one entry per
  product otherwise.
\<close>

theorem top_products_ranked:
  "\<exists>ranked.
     top_products (get_report_summary clk d period start_date end_date) = take 10 ranked \<and>
     mset ranked = mset (spec_per_product (report_sales clk d period start_date end_date)) \<and>
     sorted (rev (map ps_quantity ranked)) \<and>
     (\<forall>q. filter (\<lambda>a. ps_quantity a = q) ranked =
          filter (\<lambda>a. ps_quantity a = q)
            (spec_per_product (report_sales clk d period start_date end_date))) \<and>
     length (top_products (get_report_summary clk d period start_date end_date)) =
       min 10 (card (product_id ` set (line_items (report_sales clk d period start_date end_date))))"
proof -
  let ?sls = "report_sales clk d period start_date end_date"
  let ?ranked = "sorted_reverse ps_quantity (spec_per_product ?sls)"
  have a: "top_products (get_report_summary clk d period start_date end_date) = take 10 ?ranked"
    by (simp add: get_report_summary_def top_products_summarise)
  have b: "mset ?ranked = mset (spec_per_product ?sls)"
    by (rule mset_sorted_reverse)
  have c: "sorted (rev (map ps_quantity ?ranked))"
    by (rule sorted_reverse_descending)
  have e: "filter (\<lambda>a. ps_quantity a = q) ?ranked =
           filter (\<lambda>a. ps_quantity a = q) (spec_per_product ?sls)" for q
    by (rule sorted_reverse_stable)
  have f: "length (top_products (get_report_summary clk d period start_date end_date)) =
       min 10 (card (product_id ` set (line_items ?sls)))"
    unfolding a
    by (simp add: length_sorted_reverse length_spec_per_product min.commute)
  from a b c e f show ?thesis by blast
qed

text \<open>
  Eleven products in one sale: ten are listed, in descending quantity; the three
  products of quantity 5 and the products of quantity 1 appear in first-seen order, and
  the last product of quantity 1 is cut off.
\<close>

theorem top_products_ranked_witness:
  "card (product_id ` set (line_items (report_sales no_clock party_db ''all'' None None))) = 11 \<and>
   length (top_products (get_report_summary no_clock party_db ''all'' None None)) = 10 \<and>
   map (\<lambda>a. (ps_product_id a, ps_quantity a))
     (top_products (get_report_summary no_clock party_db ''all'' None None)) =
     [(''f'', 9), (''i'', 7), (''b'', 5), (''d'', 5), (''j'', 5), (''k'', 4), (''c'', 3),
      (''e'', 2), (''a'', 1), (''g'', 1)]"
proof -
  from top_products_ranked
    [where clk = no_clock and d = party_db and period = "''all''" and start_date = None
       and end_date = None]
  obtain ranked where
    t: "top_products (get_report_summary no_clock party_db ''all'' None None) = take 10 ranked"
    and l: "length (top_products (get_report_summary no_clock party_db ''all'' None None)) =
       min 10 (card (product_id ` set (line_items (report_sales no_clock party_db ''all'' None None))))"
    and st: "\<forall>q. filter (\<lambda>a. ps_quantity a = q) ranked =
          filter (\<lambda>a. ps_quantity a = q)
            (spec_per_product (report_sales no_clock party_db ''all'' None None))"
    by blast
  have "product_id ` set (line_items (sales party_db)) =
        set (map product_id (line_items (sales party_db)))"
    by simp
  also have "card \<dots> = 11"
    unfolding card_set
    by (simp add: line_items_def party_db_def party_items_def)
  finally have c: "card (product_id ` set (line_items (report_sales no_clock party_db ''all'' None None))) = 11"
    by (simp add: party_report_sales)
  from l c have n: "length (top_products (get_report_summary no_clock party_db ''all'' None None)) = 10"
    by simp
  have "top_products (get_report_summary no_clock party_db ''all'' None None) =
        take 10 (sorted_reverse ps_quantity (spec_per_product (sales party_db)))"
    by (simp add: get_report_summary_def top_products_summarise party_report_sales)
  then have m: "map (\<lambda>a. (ps_product_id a, ps_quantity a))
     (top_products (get_report_summary no_clock party_db ''all'' None None)) =
     [(''f'', 9), (''i'', 7), (''b'', 5), (''d'', 5), (''j'', 5), (''k'', 4), (''c'', 3),
      (''e'', 2), (''a'', 1), (''g'', 1)]"
    by (simp only: party_top)
  from c n m show ?thesis by blast
qed

section \<open>Revenue by current category\<close>





section \<open>Tokens and the authentication gate\<close>

lemma get_current_user_Inr:
  "get_current_user mac key now' d tok = Inr r \<Longrightarrow>
     \<exists>c. tok = Signed c (mac key c) \<and> c_sub c = Some (u_id r) \<and> r \<in> set (users d) \<and>
         (case c_exp c of None \<Rightarrow> True | Some e \<Rightarrow> now' \<le> e)"
  by (cases tok)
     (auto simp: get_current_user_def split: if_splits option.splits sum.splits
           dest: find_one_Some_P)

lemma get_current_user_Inl:
  "get_current_user mac key now' d tok = Inl e \<Longrightarrow> e = credentials_exception"
  by (auto simp: get_current_user_def split: option.splits sum.splits)

text \<open>
  C4. A token issued at time \<open>now\<close> for the identifier of a stored user carries that
  identifier and the expiry \<open>now\<close> plus seven days, and \<open>get_current_user\<close> resolves
  it to that user at every time up to the expiry. A token whose signature is not the
  one of its claims, a structurally corrupt token and a token whose expiry lies in the
  past are all refused with the 401 \<open>credentials_exception\<close>. There is nothing in
  between: a failure is always that exception, and a user is returned only for a token
  with the right signature that is not expired and whose subject is the identifier of
  that stored user.
\<close>

theorem token_resolves_until_expiry:
  "(find_one (\<lambda>u. u_id u = uid) (users d) = Some u \<and> now' \<le> now + 7 * 24 * 60 * 60 \<longrightarrow>
      get_current_user mac key now' d
        (create_access_token mac key now \<lparr>c_sub = Some uid, c_exp = None\<rparr>) = Inr u \<and>
      u_id u = uid) \<and>
   create_access_token mac key now \<lparr>c_sub = Some uid, c_exp = None\<rparr> =
     Signed \<lparr>c_sub = Some uid, c_exp = Some (now + 7 * 24 * 60 * 60)\<rparr>
       (mac key \<lparr>c_sub = Some uid, c_exp = Some (now + 7 * 24 * 60 * 60)\<rparr>) \<and>
   (sg \<noteq> mac key c \<longrightarrow>
      get_current_user mac key now' d (Signed c sg) = Inl credentials_exception) \<and>
   get_current_user mac key now' d (Corrupt s) = Inl credentials_exception \<and>
   (c_exp c = Some e \<and> e < now' \<longrightarrow>
      get_current_user mac key now' d (Signed c sg) = Inl credentials_exception) \<and>
   (\<forall>tok err. get_current_user mac key now' d tok = Inl err \<longrightarrow> err = credentials_exception) \<and>
   (\<forall>tok r. get_current_user mac key now' d tok = Inr r \<longrightarrow>
      (\<exists>c'. tok = Signed c' (mac key c') \<and> c_sub c' = Some (u_id r) \<and> r \<in> set (users d) \<and>
            (case c_exp c' of None \<Rightarrow> True | Some e' \<Rightarrow> now' \<le> e')))"
proof -
  have tok: "create_access_token mac key now \<lparr>c_sub = Some uid, c_exp = None\<rparr> =
     Signed \<lparr>c_sub = Some uid, c_exp = Some (now + 7 * 24 * 60 * 60)\<rparr>
       (mac key \<lparr>c_sub = Some uid, c_exp = Some (now + 7 * 24 * 60 * 60)\<rparr>)"
    by (simp add: create_access_token_def jwt_encode_def ACCESS_TOKEN_EXPIRE_MINUTES_def Let_def)
  have a: "find_one (\<lambda>u. u_id u = uid) (users d) = Some u \<and> now' \<le> now + 7 * 24 * 60 * 60 \<longrightarrow>
      get_current_user mac key now' d
        (create_access_token mac key now \<lparr>c_sub = Some uid, c_exp = None\<rparr>) = Inr u \<and>
      u_id u = uid"
    unfolding tok by (auto simp: get_current_user_def dest: find_one_Some_P)
  have b: "sg \<noteq> mac key c \<longrightarrow>
      get_current_user mac key now' d (Signed c sg) = Inl credentials_exception"
    by (simp add: get_current_user_def)
  have c: "get_current_user mac key now' d (Corrupt s) = Inl credentials_exception"
    by (simp add: get_current_user_def)
  have e: "c_exp c = Some e \<and> e < now' \<longrightarrow>
      get_current_user mac key now' d (Signed c sg) = Inl credentials_exception"
    by (simp add: get_current_user_def)
  from a tok b c e show ?thesis
    using get_current_user_Inl get_current_user_Inr by blast
qed

text \<open>
  A token issued at time 0 resolves at second 604800 and is refused one second later;
  a forged signature and a corrupt token are refused.
\<close>

theorem token_resolves_until_expiry_witness:
  "get_current_user demo_mac ''k'' 604800 db1
     (create_access_token demo_mac ''k'' 0 \<lparr>c_sub = Some ''u1'', c_exp = None\<rparr>) = Inr ana \<and>
   get_current_user demo_mac ''k'' 604801 db1
     (Signed \<lparr>c_sub = Some ''u1'', c_exp = Some 604800\<rparr>
        (demo_mac ''k'' \<lparr>c_sub = Some ''u1'', c_exp = Some 604800\<rparr>)) =
     Inl credentials_exception \<and>
   get_current_user demo_mac ''k'' 604801 db1
     (Signed \<lparr>c_sub = Some ''u1'', c_exp = Some 604800\<rparr> ''forged'') = Inl credentials_exception \<and>
   get_current_user demo_mac ''k'' 604801 db1 (Corrupt ''not.a.token'') = Inl credentials_exception"
proof -
  let ?c = "\<lparr>c_sub = Some ''u1'', c_exp = Some 604800\<rparr>"
  have f: "find_one (\<lambda>u. u_id u = ''u1'') (users db1) = Some ana"
    by (simp add: find_one_def db1_def ana_def)
  have le: "(604800::int) \<le> 0 + 7 * 24 * 60 * 60"
    by simp
  have ne: "''forged'' \<noteq> demo_mac ''k'' ?c"
    by (simp add: demo_mac_def)
  have ex: "c_exp ?c = Some 604800 \<and> (604800::int) < 604801"
    by simp
  have 1: "get_current_user demo_mac ''k'' 604800 db1
     (create_access_token demo_mac ''k'' 0 \<lparr>c_sub = Some ''u1'', c_exp = None\<rparr>) = Inr ana"
    using token_resolves_until_expiry
      [where uid = "''u1''" and d = db1 and u = ana and now' = 604800 and now = 0
         and mac = demo_mac and key = "''k''" and c = ?c and sg = "''forged''"
         and s = "''not.a.token''" and e = 604800] f le
    by blast
  have 2: "get_current_user demo_mac ''k'' 604801 db1 (Signed ?c (demo_mac ''k'' ?c)) =
     Inl credentials_exception"
    using token_resolves_until_expiry
      [where uid = "''u1''" and d = db1 and u = ana and now' = 604801 and now = 0
         and mac = demo_mac and key = "''k''" and c = ?c and sg = "demo_mac ''k'' ?c"
         and s = "''not.a.token''" and e = 604800] ex
    by blast
  have 3: "get_current_user demo_mac ''k'' 604801 db1 (Signed ?c ''forged'') =
     Inl credentials_exception"
    using token_resolves_until_expiry
      [where uid = "''u1''" and d = db1 and u = ana and now' = 604801 and now = 0
         and mac = demo_mac and key = "''k''" and c = ?c and sg = "''forged''"
         and s = "''not.a.token''" and e = 604800] ne
    by blast
  have 4: "get_current_user demo_mac ''k'' 604801 db1 (Corrupt ''not.a.token'') =
     Inl credentials_exception"
    using token_resolves_until_expiry
      [where uid = "''u1''" and d = db1 and u = ana and now' = 604801 and now = 0
         and mac = demo_mac and key = "''k''" and c = ?c and sg = "''forged''"
         and s = "''not.a.token''" and e = 604800]
    by blast
  from 1 2 3 4 show ?thesis by blast
qed

section \<open>Login failures\<close>



section \<open>Uniqueness of emails\<close>

text \<open>\<open>register\<close> looks the email up before it inserts, so it keeps the emails of the
  users pairwise distinct.\<close>

lemma register_keeps_emails_distinct:
  assumes "distinct (map u_email (users d))"
  shows "distinct (map u_email (users (snd (register ctx new_id now_iso d user_data))))"
proof (cases "find_one (\<lambda>u. u_email u = uc_email user_data) (users d)")
  case None
  then have "uc_email user_data \<notin> u_email ` set (users d)"
    by (auto simp: find_one_None_iff)
  with assms None show ?thesis
    by (simp add: register_def Let_def user.extend_def)
next
  case (Some u)
  with assms show ?thesis by (simp add: register_def)
qed

text \<open>
  C6. \<open>seed_data\<close> looks at the number of products only and then inserts its two
  users without looking their emails up. On a database whose catalog is empty and
  where \<open>admin@pos.com\<close> has been registered, it stores a second user with that
  email: the emails of the users are no longer distinct.
\<close>

theorem seed_data_duplicates_email:
  "map u_email
     (users (snd (seed_data ctx uuid now
        (snd (register ctx new_id now_iso db0 admin_create))))) =
     [''admin@pos.com'', ''admin@pos.com'', ''cashier@pos.com''] \<and>
   \<not> distinct (map u_email
     (users (snd (seed_data ctx uuid now
        (snd (register ctx new_id now_iso db0 admin_create))))))"
proof -
  have r: "snd (register ctx new_id now_iso db0 admin_create) =
     \<lparr>users = [\<lparr>u_id = new_id, u_email = ''admin@pos.com'', u_name = ''Eve'',
                 u_role = ''cashier'', u_created_at = now_iso,
                 u_password = get_password_hash ctx ''hunter2''\<rparr>],
      products = [], sales = []\<rparr>"
    by (simp add: register_def find_one_def db0_def admin_create_def Let_def user.extend_def)
  have "map u_email (users (snd (seed_data ctx uuid now
        (snd (register ctx new_id now_iso db0 admin_create))))) =
     [''admin@pos.com'', ''admin@pos.com'', ''cashier@pos.com'']"
    unfolding r by (simp add: seed_data_def Let_def)
  then show ?thesis by simp
qed

section \<open>Creating a sale\<close>











section \<open>Partial update of a product\<close>

lemma p_id_set_fields: "p_id (set_fields u p) = p_id p"
  by (simp add: set_fields_def)

lemma set_fields_empty: "update_data_empty u \<Longrightarrow> set_fields u p = p"
  by (simp add: set_fields_def update_data_empty_def)

lemma update_product_found:
  assumes "find_one (\<lambda>p. p_id p = pid) (products d) = Some p"
  shows "update_product d pid upd =
     (Inr (set_fields upd p),
      d\<lparr>products := update_one (\<lambda>q. p_id q = pid) (\<lambda>_. set_fields upd p) (products d)\<rparr>)"
proof (cases "update_data_empty upd")
  case True
  then have "set_fields upd p = p" by (rule set_fields_empty)
  with assms True show ?thesis
    by (simp add: update_product_def update_one_same)
next
  case False
  have "find_one (\<lambda>q. p_id q = pid) (update_one (\<lambda>q. p_id q = pid) (set_fields upd) (products d))
        = Some (set_fields upd p)"
    using assms by (simp add: find_one_update_one p_id_set_fields)
  moreover have "update_one (\<lambda>q. p_id q = pid) (set_fields upd) (products d) =
      update_one (\<lambda>q. p_id q = pid) (\<lambda>_. set_fields upd p) (products d)"
    by (rule update_one_const [OF assms])
  ultimately show ?thesis
    using assms False by (simp add: update_product_def)
qed

lemma update_product_missing:
  "find_one (\<lambda>p. p_id p = pid) (products d) = None \<Longrightarrow>
   update_product d pid upd = (Inl (HTTPException 404 ''Product not found'' []), d)"
  by (simp add: update_product_def)

text \<open>
  C8. \<open>update_product\<close> on an identifier that the catalog does not hold fails with
  status 404 and leaves the database as it was. On an identifier that it holds, the
  first product with that identifier is replaced by the returned product and nothing
  else changes; the returned product has the identifier, the sold counter and the
  creation time of the old one, and each of the six fields of the request is the
  supplied value where one was supplied and the old value where it was \<open>None\<close>.
\<close>

theorem update_product_partial:
  "(case find_one (\<lambda>p. p_id p = pid) (products d) of
      None \<Rightarrow> update_product d pid upd = (Inl (HTTPException 404 ''Product not found'' []), d)
    | Some p \<Rightarrow>
        (\<exists>r. update_product d pid upd =
               (Inr r, d\<lparr>products := update_one (\<lambda>q. p_id q = pid) (\<lambda>_. r) (products d)\<rparr>) \<and>
             p_id r = p_id p \<and> p_times_sold r = p_times_sold p \<and>
             p_created_at r = p_created_at p \<and>
             p_name r = (case pu_name upd of None \<Rightarrow> p_name p | Some v \<Rightarrow> v) \<and>
             p_category r = (case pu_category upd of None \<Rightarrow> p_category p | Some v \<Rightarrow> v) \<and>
             p_cost r = (case pu_cost upd of None \<Rightarrow> p_cost p | Some v \<Rightarrow> v) \<and>
             p_sale_price r = (case pu_sale_price upd of None \<Rightarrow> p_sale_price p | Some v \<Rightarrow> v) \<and>
             p_employee_price r =
               (case pu_employee_price upd of None \<Rightarrow> p_employee_price p | Some v \<Rightarrow> v) \<and>
             p_image_url r = (case pu_image_url upd of None \<Rightarrow> p_image_url p | Some v \<Rightarrow> v)))"
proof (cases "find_one (\<lambda>p. p_id p = pid) (products d)")
  case None
  then show ?thesis by (simp add: update_product_missing)
next
  case (Some p)
  show ?thesis
    unfolding Some option.case
    by (rule exI [of _ "set_fields upd p"]) (simp add: update_product_found [OF Some] set_fields_def)
qed

text \<open>
  The request \<open>{sale_price: 9.99}\<close> on a catalog of one product changes the sale
  price and nothing else; on an unknown identifier it changes nothing.
\<close>

theorem update_product_partial_witness:
  "update_product \<lparr>users = [], products = [latte], sales = []\<rparr> ''p1'' only_sale_price =
     (Inr (latte\<lparr>p_sale_price := 9.99\<rparr>),
      \<lparr>users = [], products = [latte\<lparr>p_sale_price := 9.99\<rparr>], sales = []\<rparr>) \<and>
   update_product \<lparr>users = [], products = [latte], sales = []\<rparr> ''p2'' only_sale_price =
     (Inl (HTTPException 404 ''Product not found'' []), \<lparr>users = [], products = [latte], sales = []\<rparr>)"
proof -
  let ?d = "\<lparr>users = [], products = [latte], sales = []\<rparr>"
  have f1: "find_one (\<lambda>p. p_id p = ''p1'') (products ?d) = Some latte"
    by (simp add: find_one_def latte_def)
  have f2: "find_one (\<lambda>p. p_id p = ''p2'') (products ?d) = None"
    by (simp add: find_one_def latte_def)
  from update_product_partial [where pid="''p1''" and d="?d" and upd=only_sale_price]
  obtain r where r: "update_product ?d ''p1'' only_sale_price =
       (Inr r, ?d\<lparr>products := update_one (\<lambda>q. p_id q = ''p1'') (\<lambda>_. r) (products ?d)\<rparr>)"
     and "p_id r = p_id latte" "p_times_sold r = p_times_sold latte"
       "p_created_at r = p_created_at latte" "p_name r = p_name latte"
       "p_category r = p_category latte" "p_cost r = p_cost latte" "p_sale_price r = 9.99"
       "p_employee_price r = p_employee_price latte" "p_image_url r = p_image_url latte"
    unfolding f1 by (auto simp: only_sale_price_def)
  then have "r = latte\<lparr>p_sale_price := 9.99\<rparr>" by (cases r) (simp add: latte_def)
  with r have a: "update_product ?d ''p1'' only_sale_price =
     (Inr (latte\<lparr>p_sale_price := 9.99\<rparr>),
      \<lparr>users = [], products = [latte\<lparr>p_sale_price := 9.99\<rparr>], sales = []\<rparr>)"
    by (simp add: latte_def)
  from update_product_partial [where pid="''p2''" and d="?d" and upd=only_sale_price]
  have b: "update_product ?d ''p2'' only_sale_price =
     (Inl (HTTPException 404 ''Product not found'' []), ?d)"
    unfolding f2 by simp
  from a b show ?thesis by simp
qed

section \<open>Registration\<close>



section \<open>Caps on the queries\<close>

text \<open>
  C10. \<open>get_sales\<close> returns the first 1000 of the matching sales and
  \<open>get_products\<close> the first 1000 of the matching products, so their lengths are the
  number of matches capped at 1000. \<open>get_report_summary\<close> is the summary of the first
  10000 matching sales only: its transaction count is the number of matches capped at
  10000 and its total is the sum over those first 10000. The results are plain values;
  nothing in them says that matches were left out.
\<close>

theorem query_caps:
  "length (get_sales d start_date end_date) =
     min 1000 (length (filter (matches (build_query start_date end_date)) (sales d))) \<and>
   length (get_products regex_i d category search) =
     min 1000
       (length (filter (\<lambda>p. (if truthy category then p_category p = the category else True) \<and>
                             (if truthy search then regex_i (the search) (p_name p) else True))
                  (products d))) \<and>
   get_report_summary clk d period start_date end_date =
     summarise (products d)
       (take 10000
          (filter (matches (build_query (default_start clk period start_date) end_date)) (sales d))) \<and>
   total_transactions (get_report_summary clk d period start_date end_date) =
     min 10000
       (length (filter (matches (build_query (default_start clk period start_date) end_date))
                  (sales d))) \<and>
   total_sales (get_report_summary clk d period start_date end_date) =
     sum_list (map s_total
       (take 10000
          (filter (matches (build_query (default_start clk period start_date) end_date)) (sales d))))"
proof -
  have a: "length (get_sales d start_date end_date) =
     min 1000 (length (filter (matches (build_query start_date end_date)) (sales d)))"
    by (simp add: get_sales_def to_list_def length_sorted_reverse min.commute)
  have b: "length (get_products regex_i d category search) =
     min 1000
       (length (filter (\<lambda>p. (if truthy category then p_category p = the category else True) \<and>
                             (if truthy search then regex_i (the search) (p_name p) else True))
                  (products d)))"
    by (simp add: get_products_def to_list_def min.commute)
  have c: "get_report_summary clk d period start_date end_date =
     summarise (products d)
       (take 10000
          (filter (matches (build_query (default_start clk period start_date) end_date)) (sales d)))"
    by (simp add: get_report_summary_def report_sales_def to_list_def)
  have e: "total_transactions (summarise catalog sls) = length sls" for catalog sls
    by (simp add: summarise_def Let_def)
  have f: "total_sales (summarise catalog sls) = sum_list (map s_total sls)" for catalog sls
    by (simp add: summarise_def Let_def foldl_plus_sum_list)
  show ?thesis
    unfolding c e f using a b by (simp add: min.commute)
qed

text \<open>
  A ledger of 10001 sales of total 1: the listing has 1000 entries, the report counts
  10000 transactions and a total of 10000.
\<close>

theorem query_caps_witness:
  "length (sales big_db) = 10001 \<and>
   length (get_sales big_db None None) = 1000 \<and>
   total_transactions (get_report_summary no_clock big_db ''all'' None None) = 10000 \<and>
   total_sales (get_report_summary no_clock big_db ''all'' None None) = 10000"
proof -
  note T = query_caps [where d = big_db and start_date = None and end_date = None
      and clk = no_clock and period = "''all''" and regex_i = "\<lambda>pat nm. True"
      and category = None and search = None]
  have q: "build_query None None = \<lparr>q_gte = None, q_lte = None\<rparr>"
    by (simp add: build_query_def)
  have ds: "default_start no_clock ''all'' None = None"
    by (simp add: default_start_def)
  have m: "filter (matches \<lparr>q_gte = None, q_lte = None\<rparr>) (sales big_db) = replicate 10001 cash_sale"
    by (simp add: matches_def big_db_def)
  have t: "s_total cash_sale = 1" by (simp add: cash_sale_def)
  have l: "length (sales big_db) = 10001" by (simp add: big_db_def)
  from T have 1: "length (get_sales big_db None None) =
     min 1000 (length (filter (matches (build_query None None)) (sales big_db)))"
    by blast
  from T have 2: "total_transactions (get_report_summary no_clock big_db ''all'' None None) =
     min 10000
       (length (filter (matches (build_query (default_start no_clock ''all'' None) None))
                  (sales big_db)))"
    by blast
  from T have 3: "total_sales (get_report_summary no_clock big_db ''all'' None None) =
     sum_list (map s_total
       (take 10000
          (filter (matches (build_query (default_start no_clock ''all'' None) None)) (sales big_db))))"
    by blast
  have r1: "length (get_sales big_db None None) = 1000"
    unfolding 1 q m by simp
  have r2: "total_transactions (get_report_summary no_clock big_db ''all'' None None) = 10000"
    unfolding 2 ds q m by simp
  have r3: "total_sales (get_report_summary no_clock big_db ''all'' None None) = 10000"
    unfolding 3 ds q m by (simp add: t sum_list_replicate)
  from l r1 r2 r3 show ?thesis by blast
qed

end
